theory Spec2Isabelle
  imports Main
begin

section \<open>Data model\<close>

text \<open>
  The module \<^verbatim>\<open>ranges.js\<close> works on objects of the host browser: nodes of a document
  tree, Range objects, client rectangles. Nodes are compared by identity
  (\<^verbatim>\<open>===\<close>), so a node is modelled by its identity, a natural number. All coordinates
  and offsets are JavaScript numbers that hold integers here; they are modelled as
  \<^typ>\<open>int\<close>.
\<close>

type_synonym node = nat

datatype node_kind =
  Element | Text | Comment | ProcessingInstruction | Document | DocumentType | DocumentFragment

text \<open>
  What a call can throw: the string thrown by \<^verbatim>\<open>fromPoint\<close>, the \<^verbatim>\<open>TypeError\<close> of
  reading a property of \<^verbatim>\<open>null\<close> or \<^verbatim>\<open>undefined\<close>, and the two exceptions of the
  host's Range methods.
\<close>

datatype error = Thrown string | TypeError | IndexSizeError | InvalidNodeTypeError

text \<open>The four boundary fields of a host Range object.\<close>

record dom_range =
  startContainer :: node
  startOffset :: int
  endContainer :: node
  endOffset :: int

text \<open>The fields of a client rectangle that the module reads.\<close>

record rect =
  left :: int
  right :: int
  bottom :: int

text \<open>The intermediate result \<^verbatim>\<open>{node: ..., index: ...}\<close> of the fallback scan.\<close>

record position =
  node :: "node option"
  index :: int

text \<open>The object \<^verbatim>\<open>caretPositionFromPoint\<close> returns.\<close>

record caret_position =
  offsetNode :: node
  offset :: int

text \<open>
  The environment of the module. The first group of fields is the host: the document
  tree (\<^verbatim>\<open>nodeType\<close>, the length of a node as the DOM standard defines it, the
  \<^verbatim>\<open>parentNode\<close>, \<^verbatim>\<open>firstChild\<close>, \<^verbatim>\<open>nextSibling\<close> and \<^verbatim>\<open>ownerDocument\<close> properties, the
  index of a node among its siblings, the root of a node's tree, the document order of
  two boundary points in different nodes, the common ancestor of two different nodes)
  and the layout (\<^verbatim>\<open>getClientRects\<close> of a range, \<^verbatim>\<open>scrollLeft\<close>, \<^verbatim>\<open>offsetWidth\<close>).
  The second group is the functions of the modules \<^verbatim>\<open>dom\<close> and \<^verbatim>\<open>arrays\<close> that
  \<^verbatim>\<open>ranges.js\<close> imports; their code is not part of the sources at hand, so they are
  parameters. \<^verbatim>\<open>Dom_offset\<close> gives the pair (left, top).
\<close>

record env =
  nodeType :: "node \<Rightarrow> node_kind"
  nodeLength :: "node \<Rightarrow> nat"
  parentNode :: "node \<Rightarrow> node option"
  firstChild :: "node \<Rightarrow> node option"
  nextSibling :: "node \<Rightarrow> node option"
  ownerDocument :: "node \<Rightarrow> node option"
  indexOf :: "node \<Rightarrow> nat"
  rootOf :: "node \<Rightarrow> node"
  treeBefore :: "node \<times> int \<Rightarrow> node \<times> int \<Rightarrow> bool"
  commonAncestor :: "node \<Rightarrow> node \<Rightarrow> node"
  getClientRects :: "dom_range \<Rightarrow> rect list"
  scrollLeft :: "node \<Rightarrow> int"
  offsetWidth :: "node \<Rightarrow> int"
  Dom_isTextNode :: "node \<Rightarrow> bool"
  Dom_nodeIndex :: "node \<Rightarrow> int"
  Dom_isEditable :: "node \<Rightarrow> bool"
  Dom_isEditableNode :: "node \<Rightarrow> bool"
  Dom_editingHost :: "node \<Rightarrow> node"
  Dom_upWhile :: "node \<Rightarrow> (node \<Rightarrow> bool) \<Rightarrow> node"
  Dom_offset :: "node \<Rightarrow> int \<times> int"
  Arrays_last :: "rect list \<Rightarrow> rect option"

text \<open>
  The \<^verbatim>\<open>doc\<close> argument of \<^verbatim>\<open>fromPosition\<close>: the document node, the three hit-testing
  primitives (each may be absent in a browser) and \<^verbatim>\<open>doc.body\<close>.
\<close>

record document =
  docNode :: node
  caretRangeFromPoint :: "(int \<Rightarrow> int \<Rightarrow> dom_range option) option"
  caretPositionFromPoint :: "(int \<Rightarrow> int \<Rightarrow> caret_position option) option"
  elementFromPoint :: "(int \<Rightarrow> int \<Rightarrow> node option) option"
  body :: "node option"

section \<open>The host's Range interface\<close>

text \<open>
  The methods of Range that the module calls, as the DOM standard defines them. An
  offset argument is converted to an unsigned 32-bit integer. Setting a boundary point
  is refused for a doctype (\<^verbatim>\<open>InvalidNodeTypeError\<close>) and for an offset beyond the length
  of the node (\<^verbatim>\<open>IndexSizeError\<close>); a start set after the end moves the end with it,
  and an end set before the start moves the start with it. The order of two boundary
  points of one node is the order of their offsets; across nodes it is the host's
  document order.
\<close>

definition toUnsignedLong :: "int \<Rightarrow> int" where
  "toUnsignedLong v = v mod 4294967296"

definition bpBefore :: "env \<Rightarrow> node \<times> int \<Rightarrow> node \<times> int \<Rightarrow> bool" where
  "bpBefore h a b = (if fst a = fst b then snd a < snd b else treeBefore h a b)"

definition createRange :: "node \<Rightarrow> dom_range" where
  "createRange d = \<lparr>startContainer = d, startOffset = 0, endContainer = d, endOffset = 0\<rparr>"

definition setStart :: "env \<Rightarrow> dom_range \<Rightarrow> node \<Rightarrow> int \<Rightarrow> error + dom_range" where
  "setStart h rng n off =
    (let k = toUnsignedLong off in
     if nodeType h n = DocumentType then Inl InvalidNodeTypeError
     else if int (nodeLength h n) < k then Inl IndexSizeError
     else if rootOf h (startContainer rng) \<noteq> rootOf h n
             \<or> bpBefore h (endContainer rng, endOffset rng) (n, k)
       then Inr \<lparr>startContainer = n, startOffset = k, endContainer = n, endOffset = k\<rparr>
       else Inr (rng\<lparr>startContainer := n, startOffset := k\<rparr>))"

definition setEnd :: "env \<Rightarrow> dom_range \<Rightarrow> node \<Rightarrow> int \<Rightarrow> error + dom_range" where
  "setEnd h rng n off =
    (let k = toUnsignedLong off in
     if nodeType h n = DocumentType then Inl InvalidNodeTypeError
     else if int (nodeLength h n) < k then Inl IndexSizeError
     else if rootOf h (startContainer rng) \<noteq> rootOf h n
             \<or> bpBefore h (n, k) (startContainer rng, startOffset rng)
       then Inr \<lparr>startContainer = n, startOffset = k, endContainer = n, endOffset = k\<rparr>
       else Inr (rng\<lparr>endContainer := n, endOffset := k\<rparr>))"

definition setEndAfter :: "env \<Rightarrow> dom_range \<Rightarrow> node \<Rightarrow> error + dom_range" where
  "setEndAfter h rng n =
    (case parentNode h n of
       None \<Rightarrow> Inl InvalidNodeTypeError
     | Some p \<Rightarrow> setEnd h rng p (int (indexOf h n) + 1))"

definition selectNodeContents :: "env \<Rightarrow> dom_range \<Rightarrow> node \<Rightarrow> error + dom_range" where
  "selectNodeContents h rng n =
    (if nodeType h n = DocumentType then Inl InvalidNodeTypeError
     else Inr \<lparr>startContainer = n, startOffset = 0,
               endContainer = n, endOffset = int (nodeLength h n)\<rparr>)"

definition collapse :: "dom_range \<Rightarrow> bool \<Rightarrow> dom_range" where
  "collapse rng toStart =
    (if toStart then rng\<lparr>endContainer := startContainer rng, endOffset := startOffset rng\<rparr>
     else rng\<lparr>startContainer := endContainer rng, startOffset := endOffset rng\<rparr>)"

definition commonAncestorContainer :: "env \<Rightarrow> dom_range \<Rightarrow> node" where
  "commonAncestorContainer h rng =
    (if startContainer rng = endContainer rng then startContainer rng
     else commonAncestor h (startContainer rng) (endContainer rng))"

text \<open>
  The \<^verbatim>\<open>length\<close> property that \<^verbatim>\<open>stepTextNode\<close> reads: only character data nodes have
  it; on any other node it is \<^verbatim>\<open>undefined\<close>.
\<close>

definition lengthProperty :: "env \<Rightarrow> node \<Rightarrow> nat option" where
  "lengthProperty h n =
    (if nodeType h n = Text \<or> nodeType h n = Comment \<or> nodeType h n = ProcessingInstruction
     then Some (nodeLength h n) else None)"

section \<open>The module\<close>

text \<open>
  A function that can throw returns \<^typ>\<open>error + 'a\<close>, with \<^term>\<open>Inl\<close> for the
  exception. The two scans are recursive and follow \<^verbatim>\<open>nextSibling\<close> pointers of the
  host, so they are partial functions in the option monad: \<^term>\<open>None\<close> is a call that
  does not return. \<^verbatim>\<open>null\<close> and \<^verbatim>\<open>undefined\<close> are \<^term>\<open>None\<close> of an inner option.
\<close>

text \<open>\<^verbatim>\<open>so || 0\<close> for an offset argument that may be left out.\<close>

definition orZero :: "int option \<Rightarrow> int" where
  "orZero v = (case v of None \<Rightarrow> 0 | Some k \<Rightarrow> if k \<noteq> 0 then k else 0)"

text \<open>
  \<^verbatim>\<open>create(sc, so, ec, eo)\<close> (lines 24 to 33). An argument that is left out is
  \<^term>\<open>None\<close>. \<^verbatim>\<open>sc.ownerDocument\<close> is \<^verbatim>\<open>null\<close> for a document node, and calling
  \<^verbatim>\<open>createRange\<close> on it throws.
\<close>

definition create :: "env \<Rightarrow> node \<Rightarrow> int option \<Rightarrow> node option \<Rightarrow> int option \<Rightarrow> error + dom_range" where
  "create h sc so ec eo =
    (case ownerDocument h sc of
       None \<Rightarrow> Inl TypeError
     | Some d \<Rightarrow>
        (case setStart h (createRange d) sc (orZero so) of
           Inl e \<Rightarrow> Inl e
         | Inr rng \<Rightarrow>
            (case ec of
               Some c \<Rightarrow> setEnd h rng c (orZero eo)
             | None \<Rightarrow> setEnd h rng sc (orZero so))))"

text \<open>\<^verbatim>\<open>pointIsInOrAboveRect(x, y, rect)\<close> (lines 82 to 84).\<close>

definition pointIsInOrAboveRect :: "int \<Rightarrow> int \<Rightarrow> rect \<Rightarrow> bool" where
  "pointIsInOrAboveRect x y rc = (y < bottom rc \<and> x \<ge> left rc \<and> x \<le> right rc)"

text \<open>
  \<^verbatim>\<open>stepTextNode(node, range, offset, x, y)\<close> (lines 86 to 105). The probe range is an
  object that each call changes with \<^verbatim>\<open>setEnd\<close>; here the changed range is passed on.
  \<^verbatim>\<open>rect && pointIsInOrAboveRect(x, y, rect)\<close> fails when there is no rectangle.
\<close>

partial_function (option) stepTextNode ::
  "env \<Rightarrow> node \<Rightarrow> dom_range \<Rightarrow> int \<Rightarrow> int \<Rightarrow> int \<Rightarrow> (error + position) option" where
  "stepTextNode h n rng off x y =
    (case setEnd h rng n off of
       Inl e \<Rightarrow> Some (Inl e)
     | Inr rng' \<Rightarrow>
        (case Arrays_last h (getClientRects h rng') of
           Some rc \<Rightarrow>
             if pointIsInOrAboveRect x y rc
             then Some (Inr \<lparr>node = Some n,
                              index = (if right rc - x > x - left rc then off - 1 else off)\<rparr>)
             else if (case lengthProperty h n of None \<Rightarrow> False | Some l \<Rightarrow> off < int l)
               then stepTextNode h n rng' (off + 1) x y
               else Some (Inr \<lparr>node = Some n, index = off\<rparr>)
         | None \<Rightarrow>
             if (case lengthProperty h n of None \<Rightarrow> False | Some l \<Rightarrow> off < int l)
             then stepTextNode h n rng' (off + 1) x y
             else Some (Inr \<lparr>node = Some n, index = off\<rparr>)))"

text \<open>\<^verbatim>\<open>findOffset(node, range, x, y)\<close> (lines 107 to 129).\<close>

partial_function (option) findOffset ::
  "env \<Rightarrow> node \<Rightarrow> dom_range \<Rightarrow> int \<Rightarrow> int \<Rightarrow> (error + position) option" where
  "findOffset h n rng x y =
    (if Dom_isTextNode h n then stepTextNode h n rng 0 x y
     else
      (case setEndAfter h rng n of
         Inl e \<Rightarrow> Some (Inl e)
       | Inr rng' \<Rightarrow>
          (case Arrays_last h (getClientRects h rng') of
             Some rc \<Rightarrow>
               if pointIsInOrAboveRect x y rc
               then Some (Inr \<lparr>node = parentNode h n, index = Dom_nodeIndex h n\<rparr>)
               else
                (case nextSibling h n of
                   Some s \<Rightarrow> findOffset h s rng' x y
                 | None \<Rightarrow> Some (Inr \<lparr>node = parentNode h n, index = Dom_nodeIndex h n\<rparr>))
           | None \<Rightarrow>
              (case nextSibling h n of
                 Some s \<Rightarrow> findOffset h s rng' x y
               | None \<Rightarrow> Some (Inr \<lparr>node = parentNode h n, index = Dom_nodeIndex h n\<rparr>)))))"

declare stepTextNode.simps [code]
declare findOffset.simps [code]

text \<open>
  \<^verbatim>\<open>fromPointIE(x, y, doc)\<close> (lines 134 to 154). \<^verbatim>\<open>elementFromPoint\<close> gives \<^verbatim>\<open>null\<close> for a
  point outside the viewport, and reading \<^verbatim>\<open>el.firstChild\<close> then throws. The first value
  of \<^verbatim>\<open>offset\<close>, with the index -1, is replaced on both branches before it is used. The
  final \<^verbatim>\<open>create(offset.node, offset.index)\<close> throws when \<^verbatim>\<open>offset.node\<close> is \<^verbatim>\<open>null\<close>.
\<close>

definition fromPointIE :: "env \<Rightarrow> document \<Rightarrow> int \<Rightarrow> int \<Rightarrow> (error + dom_range) option" where
  "fromPointIE h doc x y =
    (case elementFromPoint doc of
       None \<Rightarrow> Some (Inl TypeError)
     | Some hit \<Rightarrow>
        (case hit x y of
           None \<Rightarrow> Some (Inl TypeError)
         | Some el \<Rightarrow>
            (case selectNodeContents h (createRange (docNode doc)) el of
               Inl e \<Rightarrow> Some (Inl e)
             | Inr rng0 \<Rightarrow>
                (case (case firstChild h el of
                         None \<Rightarrow> Some (Inr \<lparr>node = parentNode h el, index = Dom_nodeIndex h el\<rparr>)
                       | Some c \<Rightarrow> findOffset h c (collapse rng0 True) x y) of
                   None \<Rightarrow> None
                 | Some (Inl e) \<Rightarrow> Some (Inl e)
                 | Some (Inr p) \<Rightarrow>
                    (case node p of
                       None \<Rightarrow> Some (Inl TypeError)
                     | Some sc \<Rightarrow> Some (create h sc (Some (index p)) None None))))))"

text \<open>
  \<^verbatim>\<open>fromPoint(x, y, doc)\<close> (lines 54 to 70). \<^verbatim>\<open>caretPositionFromPoint\<close> gives \<^verbatim>\<open>null\<close>
  where there is no caret position, and reading \<^verbatim>\<open>pos.offsetNode\<close> then throws.
\<close>

definition fromPoint :: "env \<Rightarrow> document \<Rightarrow> int \<Rightarrow> int \<Rightarrow> (error + dom_range option) option" where
  "fromPoint h doc x y =
    (if x < 0 \<or> y < 0 then Some (Inr None)
     else
      (case caretRangeFromPoint doc of
         Some caretRange \<Rightarrow> Some (Inr (caretRange x y))
       | None \<Rightarrow>
          (case caretPositionFromPoint doc of
             Some caretPosition \<Rightarrow>
              (case caretPosition x y of
                 None \<Rightarrow> Some (Inl TypeError)
               | Some pos \<Rightarrow>
                  Some (map_sum id Some (create h (offsetNode pos) (Some (offset pos)) None None)))
           | None \<Rightarrow>
              (case elementFromPoint doc of
                 Some _ \<Rightarrow> map_option (map_sum id Some) (fromPointIE h doc x y)
               | None \<Rightarrow> Some (Inl (Thrown ''fromPoint() unimplemented for this browser''))))))"

text \<open>\<^verbatim>\<open>parentBlock(node)\<close> (lines 164 to 170).\<close>

definition parentBlock :: "env \<Rightarrow> node \<Rightarrow> node option" where
  "parentBlock h n =
    (let block = (if Dom_isEditable h n then Dom_editingHost h n else n);
         parent = Dom_upWhile h block
           (\<lambda>m. case parentNode h m of None \<Rightarrow> False | Some p \<Rightarrow> \<not> Dom_isEditable h p)
     in if nodeType h parent = Document then None else Some parent)"

text \<open>
  \<^verbatim>\<open>fromPosition(x, y, doc)\<close> (lines 184 to 205). Reading \<^verbatim>\<open>body.scrollLeft\<close> throws
  when the document has no body.
\<close>

definition fromPosition :: "env \<Rightarrow> document \<Rightarrow> int \<Rightarrow> int \<Rightarrow> (error + dom_range option) option" where
  "fromPosition h doc x y =
    (case fromPoint h doc x y of
       None \<Rightarrow> None
     | Some (Inl e) \<Rightarrow> Some (Inl e)
     | Some (Inr None) \<Rightarrow> Some (Inr None)
     | Some (Inr (Some rng)) \<Rightarrow>
        if Dom_isEditableNode h (commonAncestorContainer h rng) then Some (Inr (Some rng))
        else
         (case parentBlock h (commonAncestorContainer h rng) of
            None \<Rightarrow> Some (Inr None)
          | Some block \<Rightarrow>
             (case parentNode h block of
                None \<Rightarrow> Some (Inr None)
              | Some blockParent \<Rightarrow>
                 (case body doc of
                    None \<Rightarrow> Some (Inl TypeError)
                  | Some b \<Rightarrow>
                     (let offsets = Dom_offset h block;
                          blockIndex = Dom_nodeIndex h block;
                          pointX = x + scrollLeft h b;
                          blockX = fst offsets + scrollLeft h b + offsetWidth h block
                      in Some (map_sum id Some
                           (create h blockParent
                              (Some (if pointX > blockX then blockIndex + 1 else blockIndex))
                              None None)))))))"

text \<open>\<^verbatim>\<open>equals(a, b)\<close> (lines 215 to 220).\<close>

definition equals :: "dom_range \<Rightarrow> dom_range \<Rightarrow> bool" where
  "equals a b =
    (startContainer a = startContainer b
     \<and> startOffset a = startOffset b
     \<and> endContainer a = endContainer b
     \<and> endOffset a = endOffset b)"

section \<open>Notions used by the statements\<close>

text \<open>A collapsed range: its two boundary points are the same.\<close>

definition collapsed :: "dom_range \<Rightarrow> bool" where
  "collapsed rng = (startContainer rng = endContainer rng \<and> startOffset rng = endOffset rng)"

text \<open>
  What the host promises of \<^verbatim>\<open>caretRangeFromPoint\<close> where the document has it: the range
  it returns for the point is a caret, that is, collapsed.
\<close>

definition hostCaretCollapsed :: "document \<Rightarrow> int \<Rightarrow> int \<Rightarrow> bool" where
  "hostCaretCollapsed doc x y =
    (case caretRangeFromPoint doc of
       None \<Rightarrow> True
     | Some caretRange \<Rightarrow> (case caretRange x y of None \<Rightarrow> True | Some rng \<Rightarrow> collapsed rng))"

text \<open>
  The fallback scan, said without the recursion. The probe range keeps its start \<open>s\<close>
  and has its end moved from one boundary point to the next; \<open>rectAt\<close> is the rectangle
  the scan looks at when the end stands at offset \<open>k\<close> of node \<open>n\<close> (the last client
  rectangle of the probe range, if it has one), and \<open>textHits\<close> lists the offsets of a
  scan whose rectangle contains or lies above the point, in the order of the scan, each
  with its rectangle.
\<close>

definition probe :: "node \<times> int \<Rightarrow> node \<Rightarrow> int \<Rightarrow> dom_range" where
  "probe s n k = \<lparr>startContainer = fst s, startOffset = snd s, endContainer = n, endOffset = k\<rparr>"

definition rectAt :: "env \<Rightarrow> node \<times> int \<Rightarrow> node \<Rightarrow> int \<Rightarrow> rect option" where
  "rectAt h s n k = Arrays_last h (getClientRects h (probe s n k))"

definition hitAt :: "env \<Rightarrow> node \<times> int \<Rightarrow> int \<Rightarrow> int \<Rightarrow> node \<Rightarrow> int \<Rightarrow> bool" where
  "hitAt h s x y n k =
    (case rectAt h s n k of None \<Rightarrow> False | Some rc \<Rightarrow> pointIsInOrAboveRect x y rc)"

definition textHits ::
  "env \<Rightarrow> node \<times> int \<Rightarrow> int \<Rightarrow> int \<Rightarrow> node \<Rightarrow> int list \<Rightarrow> (int \<times> rect) list" where
  "textHits h s x y n ks =
    List.map_filter
      (\<lambda>k. case rectAt h s n k of
             None \<Rightarrow> None
           | Some rc \<Rightarrow> if pointIsInOrAboveRect x y rc then Some (k, rc) else None)
      ks"


text \<open>
  The host accepts \<open>(n, k)\<close> as the end of a probe range that starts at \<open>s\<close> and leaves
  the start where it is: the node is no doctype, the offset is within the node and
  within 32 bits, the node is in the tree of the start, and the point is not before the
  start. This holds of every boundary point inside the element that the probe range
  starts in.
\<close>

definition endAccepted :: "env \<Rightarrow> node \<times> int \<Rightarrow> node \<Rightarrow> int \<Rightarrow> bool" where
  "endAccepted h s n k =
    (nodeType h n \<noteq> DocumentType \<and> 0 \<le> k \<and> k < 4294967296 \<and> k \<le> int (nodeLength h n)
     \<and> rootOf h (fst s) = rootOf h n \<and> \<not> bpBefore h (n, k) s)"

text \<open>The last offset of the scan of a text node: its \<^verbatim>\<open>length\<close>.\<close>

definition scanLength :: "env \<Rightarrow> node \<Rightarrow> int" where
  "scanLength h n = (case lengthProperty h n of None \<Rightarrow> 0 | Some l \<Rightarrow> int l)"

text \<open>
  The result of scanning the offsets \<open>k0, ..., len\<close> of a text node: at the first offset
  whose rectangle contains or lies above the point, that offset if the point is at least
  as close to the right edge of the rectangle as to its left edge and the offset before
  it otherwise; the last offset if there is no such offset.
\<close>

definition textScan ::
  "env \<Rightarrow> node \<times> int \<Rightarrow> int \<Rightarrow> int \<Rightarrow> node \<Rightarrow> int \<Rightarrow> int \<Rightarrow> position" where
  "textScan h s x y n k0 len =
    (case textHits h s x y n [k0..len] of
       [] \<Rightarrow> \<lparr>node = Some n, index = len\<rparr>
     | (k, rc) # _ \<Rightarrow>
         \<lparr>node = Some n, index = (if right rc - x \<le> x - left rc then k else k - 1)\<rparr>)"

text \<open>
  The siblings from \<open>n\<close> on, as far as the \<^verbatim>\<open>nextSibling\<close> pointers lead: \<open>ns\<close> is that
  chain when it starts with \<open>n\<close>, each node is followed by its next sibling, and the
  last one has none. A node has a finite sibling chain when there is such a list.
\<close>

fun siblingChain :: "env \<Rightarrow> node \<Rightarrow> node list \<Rightarrow> bool" where
  "siblingChain h n [] = False"
| "siblingChain h n [m] = (m = n \<and> nextSibling h n = None)"
| "siblingChain h n (m # m' # ms) =
    (m = n \<and> nextSibling h n = Some m' \<and> siblingChain h m' (m' # ms))"

text \<open>
  The probe of a sibling that is no text node puts the end of the probe range after it,
  at offset \<open>indexOf m + 1\<close> of its parent.
\<close>

definition siblingHit :: "env \<Rightarrow> node \<times> int \<Rightarrow> int \<Rightarrow> int \<Rightarrow> node \<Rightarrow> bool" where
  "siblingHit h s x y m =
    (case parentNode h m of
       None \<Rightarrow> False
     | Some p \<Rightarrow> hitAt h s x y p (int (indexOf h m) + 1))"

definition siblingAccepted :: "env \<Rightarrow> node \<times> int \<Rightarrow> node \<Rightarrow> bool" where
  "siblingAccepted h s m =
    (if Dom_isTextNode h m then list_all (endAccepted h s m) [0..scanLength h m]
     else (case parentNode h m of
             None \<Rightarrow> False
           | Some p \<Rightarrow> endAccepted h s p (int (indexOf h m) + 1)))"

text \<open>
  The result of scanning the siblings \<open>ns\<close>: the scan stops at the first sibling that
  is a text node or whose rectangle contains or lies above the point. A text node is
  scanned offset by offset from 0; for another node the result is the position of that
  node in its parent. If the scan stops nowhere, the result is the position of the last
  sibling in its parent.
\<close>

definition siblingScan ::
  "env \<Rightarrow> node \<times> int \<Rightarrow> int \<Rightarrow> int \<Rightarrow> node list \<Rightarrow> position" where
  "siblingScan h s x y ns =
    (case find (\<lambda>m. Dom_isTextNode h m \<or> siblingHit h s x y m) ns of
       None \<Rightarrow> \<lparr>node = parentNode h (last ns), index = Dom_nodeIndex h (last ns)\<rparr>
     | Some m \<Rightarrow>
         if Dom_isTextNode h m then textScan h s x y m 0 (scanLength h m)
         else \<lparr>node = parentNode h m, index = Dom_nodeIndex h m\<rparr>)"

section \<open>An example document\<close>

text \<open>
  A small document on which the theorems below are instantiated: the document node 0
  holds the body 1, which holds a paragraph 2 and a block 6; the paragraph is editable
  and holds two images 3 and 4 and the text node 5 with the two characters \<^verbatim>\<open>ab\<close>.
  Everything is laid out on one line of height 20: image 3 from 0 to 10, image 4 from 10
  to 20, each character 8 wide from 20 on. \<open>demoGap\<close> numbers the boundary points of
  the document in document order.
\<close>

definition demoParent :: "node \<Rightarrow> node option" where
  "demoParent n =
    (if n = 1 then Some 0 else if n = 2 \<or> n = 6 then Some 1
     else if n = 3 \<or> n = 4 \<or> n = 5 then Some 2 else None)"

definition demoGap :: "node \<times> int \<Rightarrow> int" where
  "demoGap p =
    (let k = snd p in
     if fst p = 0 then 14 * k
     else if fst p = 1 then (if k = 0 then 1 else if k = 1 then 11 else 13)
     else if fst p = 2 then (if k = 0 then 2 else if k = 1 then 4 else if k = 2 then 6 else 10)
     else if fst p = 3 then 3
     else if fst p = 4 then 5
     else if fst p = 5 then 7 + k
     else 12)"

definition demoRects :: "dom_range \<Rightarrow> rect list" where
  "demoRects rng =
    (let images = [\<lparr>left = 0, right = 10, bottom = 20\<rparr>, \<lparr>left = 10, right = 20, bottom = 20\<rparr>];
         chars = (\<lambda>k. if k > 0 then [\<lparr>left = 20, right = 20 + 8 * k, bottom = 20\<rparr>] else [])
     in if startContainer rng = 2 \<and> startOffset rng = 0 then
          (if endContainer rng = 2 then take (nat (endOffset rng)) (images @ chars 2)
           else if endContainer rng = 5 then images @ chars (endOffset rng)
           else [])
        else [])"

fun demoUpWhile :: "nat \<Rightarrow> node \<Rightarrow> (node \<Rightarrow> bool) \<Rightarrow> node" where
  "demoUpWhile 0 n p = n"
| "demoUpWhile (Suc fuel) n p =
    (if p n then (case demoParent n of None \<Rightarrow> n | Some m \<Rightarrow> demoUpWhile fuel m p) else n)"

definition demoEnv :: env where
  "demoEnv =
    \<lparr>nodeType = (\<lambda>n. if n = 0 then Document else if n = 5 then Text else Element),
     nodeLength = (\<lambda>n. if n = 0 then 1 else if n = 1 then 2 else if n = 2 then 3
                        else if n = 5 then 2 else 0),
     parentNode = demoParent,
     firstChild = (\<lambda>n. if n = 0 then Some 1 else if n = 1 then Some 2
                        else if n = 2 then Some 3 else None),
     nextSibling = (\<lambda>n. if n = 2 then Some 6 else if n = 3 then Some 4
                         else if n = 4 then Some 5 else None),
     ownerDocument = (\<lambda>n. if n = 0 then None else Some 0),
     indexOf = (\<lambda>n. if n = 4 \<or> n = 6 then 1 else if n = 5 then 2 else 0),
     rootOf = (\<lambda>n. 0),
     treeBefore = (\<lambda>a b. demoGap a < demoGap b),
     commonAncestor = (\<lambda>a b. if a = 0 \<or> b = 0 then 0
                              else if a \<in> {1, 6} \<or> b \<in> {1, 6} then 1 else 2),
     getClientRects = demoRects,
     scrollLeft = (\<lambda>n. 0),
     offsetWidth = (\<lambda>n. if n = 2 then 36 else 100),
     Dom_isTextNode = (\<lambda>n. n = 5),
     Dom_nodeIndex = (\<lambda>n. if n = 4 \<or> n = 6 then 1 else if n = 5 then 2 else 0),
     Dom_isEditable = (\<lambda>n. n \<in> {2, 3, 4, 5}),
     Dom_isEditableNode = (\<lambda>n. n \<in> {2, 3, 4, 5}),
     Dom_editingHost = (\<lambda>n. 2),
     Dom_upWhile = demoUpWhile 3,
     Dom_offset = (\<lambda>n. if n = 6 then (0, 20) else (0, 0)),
     Arrays_last = (\<lambda>rs. if rs = [] then None else Some (last rs))\<rparr>"

text \<open>
  The document as three browsers present it: with \<^verbatim>\<open>caretRangeFromPoint\<close>, with
  \<^verbatim>\<open>elementFromPoint\<close> only, and with none of the hit-testing primitives.
\<close>

definition demoDocCaret :: document where
  "demoDocCaret =
    \<lparr>docNode = 0,
     caretRangeFromPoint = Some (\<lambda>x y.
       if x < 24 then Some \<lparr>startContainer = 5, startOffset = 0, endContainer = 5, endOffset = 0\<rparr>
       else Some \<lparr>startContainer = 5, startOffset = 1, endContainer = 5, endOffset = 1\<rparr>),
     caretPositionFromPoint = None,
     elementFromPoint = Some (\<lambda>x y. Some 2),
     body = Some 1\<rparr>"

definition demoDocElement :: document where
  "demoDocElement =
    \<lparr>docNode = 0, caretRangeFromPoint = None, caretPositionFromPoint = None,
     elementFromPoint = Some (\<lambda>x y. if y < 20 then Some 2 else Some 6),
     body = Some 1\<rparr>"

definition demoDocBare :: document where
  "demoDocBare =
    \<lparr>docNode = 0, caretRangeFromPoint = None, caretPositionFromPoint = None,
     elementFromPoint = None, body = Some 1\<rparr>"

section \<open>Range construction and comparison\<close>

text \<open>
  Claim C2. \<^verbatim>\<open>equals(a, b)\<close> is true exactly when the two ranges have the same start
  container, the same start offset, the same end container and the same end offset;
  as soon as one of the four fields differs it is false.
\<close>

theorem equals_iff_fields:
  "(equals a b \<longleftrightarrow>
      startContainer a = startContainer b \<and> startOffset a = startOffset b
      \<and> endContainer a = endContainer b \<and> endOffset a = endOffset b)
   \<and> (startContainer a \<noteq> startContainer b \<or> startOffset a \<noteq> startOffset b
        \<or> endContainer a \<noteq> endContainer b \<or> endOffset a \<noteq> endOffset b
       \<longrightarrow> \<not> equals a b)"
  by (auto simp: equals_def)

theorem equals_iff_fields_witness:
  "\<not> equals \<lparr>startContainer = 5, startOffset = 1, endContainer = 5, endOffset = 1\<rparr>
            \<lparr>startContainer = 5, startOffset = 1, endContainer = 5, endOffset = 2\<rparr>
   \<and> equals \<lparr>startContainer = 5, startOffset = 1, endContainer = 5, endOffset = 2\<rparr>
            \<lparr>startContainer = 5, startOffset = 1, endContainer = 5, endOffset = 2\<rparr>"
  using equals_iff_fields
    [of "\<lparr>startContainer = 5, startOffset = 1, endContainer = 5, endOffset = 1\<rparr>"
        "\<lparr>startContainer = 5, startOffset = 1, endContainer = 5, endOffset = 2\<rparr>"]
    equals_iff_fields
    [of "\<lparr>startContainer = 5, startOffset = 1, endContainer = 5, endOffset = 2\<rparr>"
        "\<lparr>startContainer = 5, startOffset = 1, endContainer = 5, endOffset = 2\<rparr>"]
  by simp

text \<open>Claim C3. \<^verbatim>\<open>equals\<close> is reflexive: \<^verbatim>\<open>equals(r, r)\<close> is true for every range.\<close>

theorem equals_refl: "equals r r"
  by (simp add: equals_def)

text \<open>
  A range built by \<^verbatim>\<open>create\<close> without an end container is collapsed, whatever the
  host makes of the offset: the end is set to the boundary point that the start was
  just set to.
\<close>

lemma setStart_Inr:
  assumes "setStart h rng0 n off = Inr rng"
  shows "startContainer rng = n \<and> startOffset rng = toUnsignedLong off"
  using assms by (auto simp: setStart_def Let_def split: if_splits)

lemma setEnd_at_start_collapsed:
  assumes "setEnd h rng n off = Inr rng'"
    and "startContainer rng = n" and "startOffset rng = toUnsignedLong off"
  shows "collapsed rng'"
  using assms by (auto simp: setEnd_def Let_def collapsed_def bpBefore_def split: if_splits)

lemma create_no_end_collapsed:
  assumes "create h sc so None eo = Inr rng"
  shows "collapsed rng"
proof -
  from assms obtain d rng1 where
    s: "setStart h (createRange d) sc (orZero so) = Inr rng1"
    and e: "setEnd h rng1 sc (orZero so) = Inr rng"
    by (auto simp: create_def split: option.splits sum.splits)
  from setStart_Inr [OF s] e show ?thesis
    by (auto intro: setEnd_at_start_collapsed)
qed

lemma setStart_fresh:
  assumes "nodeType h n \<noteq> DocumentType" and "0 \<le> k" and "k < 4294967296"
    and "k \<le> int (nodeLength h n)"
  shows "\<exists>rng. setStart h (createRange d) n k = Inr rng
    \<and> startContainer rng = n \<and> startOffset rng = k"
  using assms by (simp add: setStart_def toUnsignedLong_def Let_def)

lemma setEnd_at_start:
  assumes "nodeType h n \<noteq> DocumentType" and "0 \<le> k" and "k < 4294967296"
    and "k \<le> int (nodeLength h n)"
    and "startContainer rng = n" and "startOffset rng = k"
  shows "setEnd h rng n k
    = Inr \<lparr>startContainer = n, startOffset = k, endContainer = n, endOffset = k\<rparr>"
  using assms by (simp add: setEnd_def toUnsignedLong_def Let_def bpBefore_def)

text \<open>
  Claim C4, amended. \<^verbatim>\<open>create(n, 3)\<close> without end arguments returns the collapsed range
  at \<open>(n, 3, n, 3)\<close> for every node \<open>n\<close> for which the host accepts the boundary point
  \<open>(n, 3)\<close>: a node that has an owner document, is not a doctype and has length at
  least 3.
\<close>

theorem create_collapsed_at_3:
  assumes "ownerDocument h n = Some d" and "nodeType h n \<noteq> DocumentType"
    and "3 \<le> nodeLength h n"
  shows "create h n (Some 3) None None
    = Inr \<lparr>startContainer = n, startOffset = 3, endContainer = n, endOffset = 3\<rparr>"
proof -
  have k: "orZero (Some 3) = 3" by (simp add: orZero_def)
  from assms obtain rng where s: "setStart h (createRange d) n 3 = Inr rng"
    and "startContainer rng = n" and "startOffset rng = 3"
    using setStart_fresh [of h n 3 d] by auto
  then have "setEnd h rng n 3
      = Inr \<lparr>startContainer = n, startOffset = 3, endContainer = n, endOffset = 3\<rparr>"
    using assms setEnd_at_start [of h n 3 rng] by simp
  with s k assms(1) show ?thesis by (simp add: create_def)
qed

theorem create_collapsed_at_3_witness:
  "create demoEnv 2 (Some 3) None None
    = Inr \<lparr>startContainer = 2, startOffset = 3, endContainer = 2, endOffset = 3\<rparr>"
  using create_collapsed_at_3 [of demoEnv 2 0]
  by (simp add: demoEnv_def)

text \<open>
  As the claim C4 is stated, for every node, it fails: the body 1 of the example
  document is an element with two children, the host refuses the boundary point
  \<open>(1, 3)\<close>, and \<^verbatim>\<open>create(n, 3)\<close> throws instead of returning a range.
\<close>

theorem create_short_node_counterexample:
  "create demoEnv 1 (Some 3) None None = Inl IndexSizeError"
  by (simp add: create_def demoEnv_def orZero_def setStart_def toUnsignedLong_def
      createRange_def)

section \<open>From a pixel position to a range\<close>

text \<open>
  Claim C1. \<^verbatim>\<open>fromPosition(x, y, doc)\<close> returns \<^verbatim>\<open>null\<close> whenever \<open>x < 0\<close> or \<open>y < 0\<close>,
  for every document (and every environment).
\<close>

theorem fromPosition_negative:
  "x < 0 \<or> y < 0 \<Longrightarrow> fromPosition h doc x y = Some (Inr None)"
  by (simp add: fromPosition_def fromPoint_def)

theorem fromPosition_negative_witness:
  "fromPosition demoEnv demoDocCaret (-1) 5 = Some (Inr None)
   \<and> fromPosition demoEnv demoDocElement 25 (-3) = Some (Inr None)"
  using fromPosition_negative [of "-1" 5 demoEnv demoDocCaret]
    fromPosition_negative [of 25 "-3" demoEnv demoDocElement]
  by simp

text \<open>
  Claim C7. When the document has none of \<^verbatim>\<open>caretRangeFromPoint\<close>,
  \<^verbatim>\<open>caretPositionFromPoint\<close> and \<^verbatim>\<open>elementFromPoint\<close>, \<^verbatim>\<open>fromPoint\<close> at non-negative
  coordinates throws its "unimplemented for this browser" error, and so does
  \<^verbatim>\<open>fromPosition\<close>: no value is returned and nothing is tried again.
\<close>

theorem fromPoint_unsupported:
  assumes "0 \<le> x" and "0 \<le> y"
    and "caretRangeFromPoint doc = None"
    and "caretPositionFromPoint doc = None"
    and "elementFromPoint doc = None"
  shows "fromPoint h doc x y
      = Some (Inl (Thrown ''fromPoint() unimplemented for this browser''))
    \<and> fromPosition h doc x y
      = Some (Inl (Thrown ''fromPoint() unimplemented for this browser''))"
proof -
  have "\<not> (x < 0 \<or> y < 0)" using assms(1,2) by simp
  then have "fromPoint h doc x y
      = Some (Inl (Thrown ''fromPoint() unimplemented for this browser''))"
    using assms(3-5) by (simp add: fromPoint_def)
  then show ?thesis by (simp add: fromPosition_def)
qed

theorem fromPoint_unsupported_witness:
  "fromPoint demoEnv demoDocBare 25 5
      = Some (Inl (Thrown ''fromPoint() unimplemented for this browser''))
   \<and> fromPosition demoEnv demoDocBare 25 5
      = Some (Inl (Thrown ''fromPoint() unimplemented for this browser''))"
  using fromPoint_unsupported [of 25 5 demoDocBare demoEnv]
  by (simp add: demoDocBare_def)

text \<open>
  Every range that \<^verbatim>\<open>fromPoint\<close> obtains through \<^verbatim>\<open>create\<close> is collapsed; the range of
  \<^verbatim>\<open>caretRangeFromPoint\<close> is passed on as the host made it.
\<close>

lemma fromPointIE_collapsed:
  assumes "fromPointIE h doc x y = Some (Inr rng)"
  shows "collapsed rng"
proof -
  from assms obtain sc k where "create h sc (Some k) None None = Inr rng"
    by (auto simp: fromPointIE_def split: option.splits sum.splits)
  then show ?thesis by (rule create_no_end_collapsed)
qed

lemma fromPoint_collapsed:
  assumes "hostCaretCollapsed doc x y" and "fromPoint h doc x y = Some (Inr (Some rng))"
  shows "collapsed rng"
proof (cases "caretRangeFromPoint doc")
  case (Some caretRange)
  with assms show ?thesis
    by (auto simp: fromPoint_def hostCaretCollapsed_def split: if_splits)
next
  case None
  note noCaretRange = None
  show ?thesis
  proof (cases "caretPositionFromPoint doc")
    case (Some caretPosition)
    with noCaretRange assms(2) obtain sc k where "create h sc (Some k) None None = Inr rng"
      by (auto simp: fromPoint_def map_sum_def split: if_splits option.splits sum.splits)
    then show ?thesis by (rule create_no_end_collapsed)
  next
    case None
    with noCaretRange assms(2)
    have "map_option (map_sum id Some) (fromPointIE h doc x y) = Some (Inr (Some rng))"
      by (auto simp: fromPoint_def split: if_splits option.splits)
    then obtain res where "fromPointIE h doc x y = Some res"
      and "map_sum id Some res = Inr (Some rng)"
      by auto
    then have "fromPointIE h doc x y = Some (Inr rng)"
      by (cases res) auto
    then show ?thesis by (rule fromPointIE_collapsed)
  qed
qed

text \<open>
  Claim C10. Every range that \<^verbatim>\<open>fromPosition\<close> returns is collapsed, on each return
  path: the range of \<^verbatim>\<open>fromPoint\<close> passed through for an editable position (a caret of
  the host, or a range built by \<^verbatim>\<open>create\<close> from one node and one offset), and the range
  built by \<^verbatim>\<open>create\<close> beside a non-editable block. The caret that the host's
  \<^verbatim>\<open>caretRangeFromPoint\<close> returns is passed on unchanged; that it is collapsed is the
  host's part, the hypothesis \<open>hostCaretCollapsed\<close>.
\<close>

theorem fromPosition_collapsed:
  assumes "hostCaretCollapsed doc x y"
    and "fromPosition h doc x y = Some (Inr (Some rng))"
  shows "collapsed rng"
proof (cases "fromPoint h doc x y")
  case None
  with assms(2) show ?thesis by (simp add: fromPosition_def)
next
  case (Some res)
  show ?thesis
  proof (cases res)
    case (Inl e)
    with Some assms(2) show ?thesis by (simp add: fromPosition_def)
  next
    case (Inr found)
    show ?thesis
    proof (cases found)
      case None
      with Some Inr assms(2) show ?thesis by (simp add: fromPosition_def)
    next
      case (Some rng0)
      note point = \<open>fromPoint h doc x y = Some res\<close> Inr Some
      show ?thesis
      proof (cases "Dom_isEditableNode h (commonAncestorContainer h rng0)")
        case True
        with point assms(2) have "rng = rng0" by (simp add: fromPosition_def)
        with point assms(1) show ?thesis by (auto intro: fromPoint_collapsed)
      next
        case False
        with point assms(2) obtain sc k where "create h sc (Some k) None None = Inr rng"
          by (auto simp: fromPosition_def Let_def map_sum_def split: option.splits sum.splits)
        then show ?thesis by (rule create_no_end_collapsed)
      qed
    qed
  qed
qed

theorem fromPosition_collapsed_witness:
  "hostCaretCollapsed demoDocCaret 25 5
   \<and> fromPosition demoEnv demoDocCaret 25 5
      = Some (Inr (Some \<lparr>startContainer = 5, startOffset = 1,
                            endContainer = 5, endOffset = 1\<rparr>))
   \<and> collapsed \<lparr>startContainer = 5, startOffset = 1, endContainer = 5, endOffset = 1\<rparr>"
proof -
  have c: "hostCaretCollapsed demoDocCaret 25 5"
    by (simp add: hostCaretCollapsed_def demoDocCaret_def collapsed_def)
  have r: "fromPosition demoEnv demoDocCaret 25 5
      = Some (Inr (Some \<lparr>startContainer = 5, startOffset = 1,
                            endContainer = 5, endOffset = 1\<rparr>))"
    by (simp add: fromPosition_def fromPoint_def demoDocCaret_def demoEnv_def
        commonAncestorContainer_def)
  from fromPosition_collapsed [OF c r] c r show ?thesis by simp
qed

section \<open>The fallback scan\<close>

subsection \<open>Termination\<close>

text \<open>
  Each call of \<^verbatim>\<open>stepTextNode\<close> that calls itself does so with the offset increased by
  one, and only while the offset is below the length of the node: the distance to the
  length decreases.
\<close>

lemma stepTextNode_returns: "\<exists>res. stepTextNode h n rng off x y = Some res"
proof (induction "nat (scanLength h n - off)" arbitrary: off rng rule: less_induct)
  case less
  show ?case
  proof (cases "setEnd h rng n off")
    case (Inl e)
    then show ?thesis by (subst stepTextNode.simps) simp
  next
    case (Inr rng')
    show ?thesis
    proof (cases "case lengthProperty h n of None \<Rightarrow> False | Some l \<Rightarrow> off < int l")
      case False
      with Inr show ?thesis
        by (subst stepTextNode.simps) (simp split: option.splits)
    next
      case True
      then have "nat (scanLength h n - (off + 1)) < nat (scanLength h n - off)"
        by (auto simp: scanLength_def split: option.splits)
      then obtain res where "stepTextNode h n rng' (off + 1) x y = Some res"
        using less.hyps by blast
      with Inr True show ?thesis
        by (subst stepTextNode.simps) (simp split: option.splits)
    qed
  qed
qed

lemma siblingChain_Cons:
  assumes "siblingChain h n (m # ms)"
  shows "m = n \<and> (case nextSibling h n of None \<Rightarrow> ms = []
                     | Some m' \<Rightarrow> ms \<noteq> [] \<and> siblingChain h m' ms)"
  using assms by (cases ms) auto


text \<open>\<^verbatim>\<open>findOffset\<close> calls itself on the next sibling: the chain of siblings gets shorter.\<close>

lemma findOffset_returns:
  assumes "siblingChain h n ns"
  shows "\<exists>res. findOffset h n rng x y = Some res"
  using assms
proof (induction ns arbitrary: n rng)
  case Nil
  then show ?case by simp
next
  case (Cons m ms)
  show ?case
  proof (cases "Dom_isTextNode h n")
    case True
    then show ?thesis
      using stepTextNode_returns [of h n rng 0 x y] by (subst findOffset.simps) simp
  next
    case False
    show ?thesis
    proof (cases "setEndAfter h rng n")
      case (Inl e)
      with False show ?thesis by (subst findOffset.simps) simp
    next
      case (Inr rng')
      show ?thesis
      proof (cases "nextSibling h n")
        case None
        with False Inr show ?thesis
          by (subst findOffset.simps) (simp split: option.splits)
      next
        case (Some m')
        with siblingChain_Cons [OF Cons.prems] have "siblingChain h m' ms" by simp
        then obtain res where "findOffset h m' rng' x y = Some res"
          using Cons.IH by blast
        with False Inr Some show ?thesis
          by (subst findOffset.simps) (simp split: option.splits)
      qed
    qed
  qed
qed

text \<open>
  Claim C9. The two scans terminate: \<^verbatim>\<open>stepTextNode\<close> returns (a position or an
  exception of the host) from every offset, in particular from an offset no greater than
  the length of the text node, and \<^verbatim>\<open>findOffset\<close> returns on every node whose sibling
  chain is finite.
\<close>

theorem scans_terminate:
  "(\<exists>res. stepTextNode h n rng off x y = Some res)
   \<and> ((\<exists>ns. siblingChain h n ns) \<longrightarrow> (\<exists>res. findOffset h n rng x y = Some res))"
proof
  show "\<exists>res. stepTextNode h n rng off x y = Some res"
    by (rule stepTextNode_returns)
next
  show "(\<exists>ns. siblingChain h n ns) \<longrightarrow> (\<exists>res. findOffset h n rng x y = Some res)"
  proof
    assume "\<exists>ns. siblingChain h n ns"
    then obtain ns where "siblingChain h n ns" ..
    then show "\<exists>res. findOffset h n rng x y = Some res"
      by (rule findOffset_returns)
  qed
qed

theorem scans_terminate_witness:
  "siblingChain demoEnv 3 [3, 4, 5]
   \<and> (\<exists>res. stepTextNode demoEnv 5 (probe (2, 0) 2 0) 0 25 5 = Some res)
   \<and> (\<exists>res. findOffset demoEnv 3 (probe (2, 0) 2 0) 25 5 = Some res)"
proof -
  have c: "siblingChain demoEnv 3 [3, 4, 5]"
    by (simp add: demoEnv_def)
  then have "\<exists>ns. siblingChain demoEnv 3 ns" by blast
  with scans_terminate [of demoEnv 5 "probe (2, 0) 2 0" 0 25 5]
    scans_terminate [of demoEnv 3 "probe (2, 0) 2 0" 0 25 5] c
  show ?thesis by blast
qed

subsection \<open>What the scan returns\<close>

text \<open>
  While the host accepts the boundary points of the scan, each probe is the range from
  the unchanged start to the boundary point tried, and the recursion of \<^verbatim>\<open>stepTextNode\<close>
  computes \<open>textScan\<close>.
\<close>

lemma setEnd_probe:
  assumes "endAccepted h s n k" and "(startContainer rng, startOffset rng) = s"
  shows "setEnd h rng n k = Inr (probe s n k)"
  using assms
  by (cases rng) (auto simp: endAccepted_def setEnd_def toUnsignedLong_def Let_def probe_def)

lemma probe_start: "(startContainer (probe s n k), startOffset (probe s n k)) = s"
  by (simp add: probe_def)

lemma textHits_Cons:
  "textHits h s x y n (k # ks) =
    (case rectAt h s n k of
       None \<Rightarrow> textHits h s x y n ks
     | Some rc \<Rightarrow> if pointIsInOrAboveRect x y rc then (k, rc) # textHits h s x y n ks
                 else textHits h s x y n ks)"
  by (simp add: textHits_def List.map_filter_simps split: option.splits)

lemma textHits_Nil: "textHits h s x y n [] = []"
  by (simp add: textHits_def List.map_filter_simps)

lemma lengthProperty_less:
  "0 \<le> k \<Longrightarrow> (case lengthProperty h n of None \<Rightarrow> False | Some l \<Rightarrow> k < int l) = (k < scanLength h n)"
  by (simp add: scanLength_def split: option.splits)

lemma stepTextNode_scan:
  assumes "list_all (endAccepted h s n) [k0..scanLength h n]"
    and "k0 \<le> scanLength h n"
    and "(startContainer rng, startOffset rng) = s"
  shows "stepTextNode h n rng k0 x y = Some (Inr (textScan h s x y n k0 (scanLength h n)))"
  using assms
proof (induction "nat (scanLength h n - k0)" arbitrary: k0 rng rule: less_induct)
  case less
  let ?len = "scanLength h n"
  have upto: "[k0..?len] = k0 # [k0 + 1..?len]"
    using less.prems(2) by (simp add: upto_rec1)
  with less.prems(1) have acc: "endAccepted h s n k0"
    and rest: "list_all (endAccepted h s n) [k0 + 1..?len]"
    by simp_all
  from acc have nonneg: "0 \<le> k0" by (simp add: endAccepted_def)
  have set: "setEnd h rng n k0 = Inr (probe s n k0)"
    using acc less.prems(3) by (rule setEnd_probe)
  note cond = lengthProperty_less [OF nonneg, of h n]
  have rect: "Arrays_last h (getClientRects h (probe s n k0)) = rectAt h s n k0"
    by (simp add: rectAt_def)
  show ?case
  proof (cases "hitAt h s x y n k0")
    case True
    then obtain rc where rc: "rectAt h s n k0 = Some rc" and hit: "pointIsInOrAboveRect x y rc"
      by (auto simp: hitAt_def split: option.splits)
    have "textScan h s x y n k0 ?len
        = \<lparr>node = Some n, index = (if right rc - x \<le> x - left rc then k0 else k0 - 1)\<rparr>"
      using rc hit by (simp add: textScan_def upto textHits_Cons)
    moreover have "stepTextNode h n rng k0 x y
        = Some (Inr \<lparr>node = Some n, index = (if right rc - x > x - left rc then k0 - 1 else k0)\<rparr>)"
      using set rc hit by (subst stepTextNode.simps) (simp add: rect)
    ultimately show ?thesis by auto
  next
    case False
    then have miss: "textHits h s x y n [k0..?len] = textHits h s x y n [k0 + 1..?len]"
      by (auto simp: upto textHits_Cons hitAt_def split: option.splits)
    show ?thesis
    proof (cases "k0 < ?len")
      case True
      then have "nat (?len - (k0 + 1)) < nat (?len - k0)" by simp
      moreover have "k0 + 1 \<le> ?len" using True by simp
      ultimately have "stepTextNode h n (probe s n k0) (k0 + 1) x y
          = Some (Inr (textScan h s x y n (k0 + 1) ?len))"
        using less.hyps rest probe_start by blast
      moreover have "stepTextNode h n rng k0 x y = stepTextNode h n (probe s n k0) (k0 + 1) x y"
        using set False True
        by (subst stepTextNode.simps) (auto simp: rect cond hitAt_def split: option.splits)
      moreover have "textScan h s x y n (k0 + 1) ?len = textScan h s x y n k0 ?len"
        using miss by (simp add: textScan_def)
      ultimately show ?thesis by simp
    next
      case False
      with less.prems(2) have last: "k0 = ?len" by simp
      then have "[k0 + 1..?len] = []" by simp
      with miss have "textScan h s x y n k0 ?len = \<lparr>node = Some n, index = ?len\<rparr>"
        by (simp add: textScan_def textHits_Nil)
      moreover have "stepTextNode h n rng k0 x y = Some (Inr \<lparr>node = Some n, index = k0\<rparr>)"
        using set \<open>\<not> hitAt h s x y n k0\<close> False
        by (subst stepTextNode.simps) (auto simp: rect cond hitAt_def split: option.splits)
      ultimately show ?thesis using last by simp
    qed
  qed
qed


text \<open>
  The siblings that are no text nodes are probed one after the other; the recursion of
  \<^verbatim>\<open>findOffset\<close> computes \<open>siblingScan\<close>.
\<close>

lemma findOffset_scan:
  assumes "siblingChain h n ns"
    and "list_all (siblingAccepted h s) ns"
    and "(startContainer rng, startOffset rng) = s"
  shows "findOffset h n rng x y = Some (Inr (siblingScan h s x y ns))"
  using assms
proof (induction ns arbitrary: n rng)
  case Nil
  then show ?case by simp
next
  case (Cons m ms)
  from siblingChain_Cons [OF Cons.prems(1)] have m: "m = n"
    and nxt: "case nextSibling h n of None \<Rightarrow> ms = []
              | Some m' \<Rightarrow> ms \<noteq> [] \<and> siblingChain h m' ms"
    by simp_all
  from Cons.prems(2) m have acc: "siblingAccepted h s n"
    and rest: "list_all (siblingAccepted h s) ms"
    by simp_all
  show ?case
  proof (cases "Dom_isTextNode h n")
    case True
    with acc have "list_all (endAccepted h s n) [0..scanLength h n]"
      by (simp add: siblingAccepted_def)
    moreover have "0 \<le> scanLength h n"
      by (simp add: scanLength_def split: option.splits)
    ultimately have "stepTextNode h n rng 0 x y
        = Some (Inr (textScan h s x y n 0 (scanLength h n)))"
      using Cons.prems(3) by (rule stepTextNode_scan)
    moreover have "siblingScan h s x y (m # ms) = textScan h s x y n 0 (scanLength h n)"
      using True m by (simp add: siblingScan_def)
    ultimately show ?thesis using True by (subst findOffset.simps) simp
  next
    case False
    with acc obtain p where p: "parentNode h n = Some p"
      and accp: "endAccepted h s p (int (indexOf h n) + 1)"
      by (auto simp: siblingAccepted_def split: option.splits)
    have set: "setEndAfter h rng n = Inr (probe s p (int (indexOf h n) + 1))"
      using p setEnd_probe [OF accp Cons.prems(3)] by (simp add: setEndAfter_def)
    have rect: "Arrays_last h (getClientRects h (probe s p (int (indexOf h n) + 1)))
        = rectAt h s p (int (indexOf h n) + 1)"
      by (simp add: rectAt_def)
    show ?thesis
    proof (cases "siblingHit h s x y n")
      case True
      then have "siblingScan h s x y (m # ms)
          = \<lparr>node = parentNode h n, index = Dom_nodeIndex h n\<rparr>"
        using False m by (simp add: siblingScan_def)
      moreover have "findOffset h n rng x y
          = Some (Inr \<lparr>node = parentNode h n, index = Dom_nodeIndex h n\<rparr>)"
        using False set True p
        by (subst findOffset.simps)
          (auto simp: rect siblingHit_def hitAt_def split: option.splits)
      ultimately show ?thesis by simp
    next
      case miss: False
      show ?thesis
      proof (cases "nextSibling h n")
        case None
        with nxt have "ms = []" by simp
        then have "siblingScan h s x y (m # ms)
            = \<lparr>node = parentNode h n, index = Dom_nodeIndex h n\<rparr>"
          using False miss m by (simp add: siblingScan_def)
        moreover have "findOffset h n rng x y
            = Some (Inr \<lparr>node = parentNode h n, index = Dom_nodeIndex h n\<rparr>)"
          using False set miss p None
          by (subst findOffset.simps)
            (auto simp: rect siblingHit_def hitAt_def split: option.splits)
        ultimately show ?thesis by simp
      next
        case (Some m')
        with nxt have ne: "ms \<noteq> []" and chain: "siblingChain h m' ms" by simp_all
        have "findOffset h m' (probe s p (int (indexOf h n) + 1)) x y
            = Some (Inr (siblingScan h s x y ms))"
          using chain rest probe_start by (rule Cons.IH)
        moreover have "findOffset h n rng x y
            = findOffset h m' (probe s p (int (indexOf h n) + 1)) x y"
          using False set miss p Some
          by (subst findOffset.simps)
            (auto simp: rect siblingHit_def hitAt_def split: option.splits)
        moreover have "siblingScan h s x y (m # ms) = siblingScan h s x y ms"
          using False miss m ne by (simp add: siblingScan_def split: option.splits)
        ultimately show ?thesis by simp
      qed
    qed
  qed
qed

text \<open>
  Claim C5, amended. The fallback scan moves the end of the probe range one unit at a
  time, through the offsets of a text node in increasing order or from one sibling to
  the next, and stops at the first position whose rectangle contains or lies above the
  point. It returns that position, moved back by one offset in a text node when the
  point is nearer to the left edge of the rectangle than to its right edge; where no
  rectangle matches, it returns the last position reached: the length of the text node,
  or the place of the last sibling. A sibling that is a text node ends the scan of the
  siblings and is scanned offset by offset. The hypotheses say that the host accepts
  each boundary point of the scan as the end of the probe range, and that \<open>ns\<close> is the
  chain of siblings from \<open>n\<close>.
\<close>

theorem scan_first_hit:
  "(list_all (endAccepted h (startContainer rng, startOffset rng) n) [k0..scanLength h n]
      \<and> k0 \<le> scanLength h n
    \<longrightarrow> stepTextNode h n rng k0 x y
        = Some (Inr (textScan h (startContainer rng, startOffset rng) x y n k0 (scanLength h n))))
   \<and> (siblingChain h n ns
      \<and> list_all (siblingAccepted h (startContainer rng, startOffset rng)) ns
    \<longrightarrow> findOffset h n rng x y
        = Some (Inr (siblingScan h (startContainer rng, startOffset rng) x y ns)))"
proof (intro conjI impI)
  assume "list_all (endAccepted h (startContainer rng, startOffset rng) n) [k0..scanLength h n]
    \<and> k0 \<le> scanLength h n"
  then show "stepTextNode h n rng k0 x y
      = Some (Inr (textScan h (startContainer rng, startOffset rng) x y n k0 (scanLength h n)))"
    by (simp add: stepTextNode_scan)
next
  assume "siblingChain h n ns
    \<and> list_all (siblingAccepted h (startContainer rng, startOffset rng)) ns"
  then show "findOffset h n rng x y
      = Some (Inr (siblingScan h (startContainer rng, startOffset rng) x y ns))"
    by (simp add: findOffset_scan)
qed

theorem scan_first_hit_witness:
  "siblingChain demoEnv 3 [3, 4, 5]
   \<and> list_all (siblingAccepted demoEnv (2, 0)) [3, 4, 5]
   \<and> findOffset demoEnv 3 (probe (2, 0) 2 0) 25 5 = Some (Inr \<lparr>node = Some 5, index = 1\<rparr>)
   \<and> findOffset demoEnv 3 (probe (2, 0) 2 0) 15 5 = Some (Inr \<lparr>node = Some 2, index = 1\<rparr>)
   \<and> stepTextNode demoEnv 5 (probe (2, 0) 2 0) 0 50 5 = Some (Inr \<lparr>node = Some 5, index = 2\<rparr>)"
proof -
  have len: "scanLength demoEnv 5 = 2"
    by (simp add: scanLength_def lengthProperty_def demoEnv_def)
  have upto: "[0..2::int] = [0, 1, 2]" by (simp add: upto.simps)
  have s: "(startContainer (probe (2, 0) 2 0), startOffset (probe (2, 0) 2 0)) = (2, 0)"
    by (simp add: probe_def)
  have chain: "siblingChain demoEnv 3 [3, 4, 5]"
    by (simp add: demoEnv_def)
  have tacc: "list_all (endAccepted demoEnv (2, 0) 5) [0..scanLength demoEnv 5]"
    unfolding len upto
    by (simp add: endAccepted_def bpBefore_def demoEnv_def demoGap_def)
  have acc: "list_all (siblingAccepted demoEnv (2, 0)) [3, 4, 5]"
    using tacc [unfolded len]
    by (simp add: siblingAccepted_def endAccepted_def bpBefore_def demoEnv_def demoParent_def
        scanLength_def lengthProperty_def)
  have r25: "siblingScan demoEnv (2, 0) 25 5 [3, 4, 5] = \<lparr>node = Some 5, index = 1\<rparr>"
    by code_simp
  have r15: "siblingScan demoEnv (2, 0) 15 5 [3, 4, 5] = \<lparr>node = Some 2, index = 1\<rparr>"
    by code_simp
  have r50: "textScan demoEnv (2, 0) 50 5 5 0 (scanLength demoEnv 5) = \<lparr>node = Some 5, index = 2\<rparr>"
    by code_simp
  from scan_first_hit [of demoEnv "probe (2, 0) 2 0" 3 0 25 5 "[3, 4, 5]", unfolded s]
    scan_first_hit [of demoEnv "probe (2, 0) 2 0" 3 0 15 5 "[3, 4, 5]", unfolded s]
    scan_first_hit [of demoEnv "probe (2, 0) 2 0" 5 0 50 5 "[5]", unfolded s]
    chain acc tacc r25 r15 r50 len
  show ?thesis by simp
qed

text \<open>
  As the claim C5 is stated, the position returned is one whose rectangle contains or
  lies above the point. In the example document the point (22, 5) is in the left part
  of the first character: the first offset of the text node 5 whose rectangle matches
  is 1, and the scan returns offset 0, whose rectangle does not match.
\<close>

theorem scan_biased_counterexample:
  "findOffset demoEnv 3 (probe (2, 0) 2 0) 22 5 = Some (Inr \<lparr>node = Some 5, index = 0\<rparr>)
   \<and> stepTextNode demoEnv 5 (probe (2, 0) 2 0) 0 22 5 = Some (Inr \<lparr>node = Some 5, index = 0\<rparr>)
   \<and> \<not> hitAt demoEnv (2, 0) 22 5 5 0
   \<and> hitAt demoEnv (2, 0) 22 5 5 1"
  by code_simp

subsection \<open>The nearer edge\<close>





end
